theory Spec2Isabelle
  imports Complex_Main
begin

section \<open>Numbers and library functions\<close>

text \<open>
  The program is TypeScript with a GLSL vertex shader. Its numbers (IEEE doubles in
  the script, 32-bit floats in the shader and in the attribute buffers) are modelled
  as mathematical reals: rounding, infinities and NaN are outside this development.
  The particle target of the configuration is an integer.

  The functions below are not defined in the repository; they are the library and
  language primitives that the source calls, with their documented meaning:
  \<^verbatim>\<open>THREE.MathUtils.lerp(x, y, t)\<close> is \<^verbatim>\<open>(1 - t) * x + t * y\<close>,
  GLSL \<^verbatim>\<open>mix(x, y, a)\<close> is \<^verbatim>\<open>x * (1 - a) + y * a\<close>,
  GLSL \<^verbatim>\<open>clamp(x, lo, hi)\<close> is \<^verbatim>\<open>min(max(x, lo), hi)\<close> and
  GLSL \<^verbatim>\<open>smoothstep(e0, e1, x)\<close> is \<^verbatim>\<open>t * t * (3 - 2 * t)\<close> for
  \<^verbatim>\<open>t = clamp((x - e0) / (e1 - e0), 0, 1)\<close>.
\<close>

definition lerp :: "real \<Rightarrow> real \<Rightarrow> real \<Rightarrow> real" where
  "lerp x y t = (1 - t) * x + t * y"

definition mix :: "real \<Rightarrow> real \<Rightarrow> real \<Rightarrow> real" where
  "mix x y a = x * (1 - a) + y * a"

definition clamp :: "real \<Rightarrow> real \<Rightarrow> real \<Rightarrow> real" where
  "clamp x lo hi = min (max x lo) hi"

definition smoothstep :: "real \<Rightarrow> real \<Rightarrow> real \<Rightarrow> real" where
  "smoothstep e0 e1 x = (let t = clamp ((x - e0) / (e1 - e0)) 0 1 in t * t * (3 - 2 * t))"

section \<open>Configuration\<close>

text \<open>The \<^verbatim>\<open>LotusConfig\<close> object that \<^verbatim>\<open>App\<close> creates and hands down.\<close>

record LotusConfig =
  petalCount :: int
  layers :: int
  particleSize :: real
  rotationSpeed :: real
  bloomIntensity :: real

definition appConfig :: LotusConfig where
  "appConfig = \<lparr>petalCount = 80000, layers = 4, particleSize = 0.06,
                 rotationSpeed = 0.1, bloomIntensity = 1.5\<rparr>"

section \<open>State smoother: the \<^verbatim>\<open>useFrame\<close> callback of \<^verbatim>\<open>LotusParticles\<close>\<close>

text \<open>
  The callback mutates three cells: the rotation of the points object (taken to be
  mounted) and the two refs \<^verbatim>\<open>currentBloomRef\<close> and \<^verbatim>\<open>currentFormRef\<close>. They
  are passed in and returned as a record.
\<close>

record anim_state =
  rotationY :: real
  currentBloom :: real
  currentForm :: real

definition useFrame :: "LotusConfig \<Rightarrow> bool \<Rightarrow> bool \<Rightarrow> real \<Rightarrow> anim_state \<Rightarrow> anim_state" where
  "useFrame config isBlooming isHandPresent delta s =
     (let targetBloom = (if isBlooming then 1.0 else 0.0);
          targetForm = (if isHandPresent then 1.0 else 0.0)
      in \<lparr>rotationY = rotationY s + delta * rotationSpeed config,
          currentBloom = lerp (currentBloom s) targetBloom (delta * 2.0),
          currentForm = lerp (currentForm s) targetForm (delta * 1.5)\<rparr>)"

text \<open>
  The update rule as the specification words it, with the interpolation factor
  capped at one. It is used only to compare with \<^const>\<open>useFrame\<close>.
\<close>

definition spec_smooth :: "real \<Rightarrow> real \<Rightarrow> real \<Rightarrow> real \<Rightarrow> real" where
  "spec_smooth rate target dt amount = amount + (target - amount) * min 1 (dt * rate)"

section \<open>Petal surface: \<^verbatim>\<open>calculatePetalShape\<close>\<close>

record Vector3 =
  vec_x :: real
  vec_y :: real
  vec_z :: real

text \<open>
  The source writes the point into its \<^verbatim>\<open>target\<close> argument and returns the maximal
  opening angle; the model returns both. \<^verbatim>\<open>Math.pow\<close> with exponent 3.0 or 2.0 is a
  power with a natural exponent; with exponent 1.5 it is \<open>powr\<close>, the base
  \<^verbatim>\<open>layerRatio\<close> being a quotient of two natural numbers and so never negative.
\<close>

definition calculatePetalShape :: "real \<Rightarrow> real \<Rightarrow> nat \<Rightarrow> nat \<Rightarrow> Vector3 \<times> real" where
  "calculatePetalShape u v layerIndex totalLayers =
     (let layerRatio = real layerIndex / real totalLayers;
          scale = 2.5 + layerRatio * 4;
          widthProfile = sin (u * pi);
          taper = 1.0 - u ^ 3;
          width = (v - 0.5) * widthProfile * taper * scale * 0.9;
          height = u * scale * 2.2;
          sideCurl = (\<bar>v - 0.5\<bar> * 2.0) ^ 2 * u * 1.5;
          lengthCurve = sin (u * pi * 0.4) * 1.0;
          depth = (sideCurl + lengthCurve) * scale * 0.3;
          maxOpenAngle = 0.2 + (layerRatio powr 1.5) * 1.5
      in (\<lparr>vec_x = width, vec_y = height, vec_z = depth\<rparr>, maxOpenAngle))"

section \<open>Colour mixing\<close>

record Color =
  col_r :: real
  col_g :: real
  col_b :: real

text \<open>\<^verbatim>\<open>THREE.Color.lerp(color, alpha)\<close> moves every channel by \<^verbatim>\<open>(color.c - this.c) * alpha\<close>.\<close>

definition color_lerp :: "Color \<Rightarrow> Color \<Rightarrow> real \<Rightarrow> Color" where
  "color_lerp this color alpha =
     \<lparr>col_r = col_r this + (col_r color - col_r this) * alpha,
      col_g = col_g this + (col_g color - col_g this) * alpha,
      col_b = col_b this + (col_b color - col_b this) * alpha\<rparr>"

text \<open>
  The five reference tones. The source derives them from the active colour string with
  the colour parser and \<^verbatim>\<open>offsetHSL\<close> of the rendering library; the generator below
  takes that derivation as a parameter of type \<open>string \<Rightarrow> Tones\<close>.
\<close>

record Tones =
  colDeep :: Color
  colMain :: Color
  colLight :: Color
  colTip :: Color
  colGold :: Color

definition petalColor :: "Tones \<Rightarrow> nat \<Rightarrow> real \<Rightarrow> real \<Rightarrow> Color" where
  "petalColor tn layerIdx u v =
     (let mixColor = colDeep tn
      in if layerIdx = 0 \<and> u < 0.3 then color_lerp mixColor (colGold tn) 0.8
         else
           (let m1 = (if u < 0.2 then color_lerp mixColor (colDeep tn) 0.8
                      else if u < 0.6 then color_lerp mixColor (colMain tn) u
                      else color_lerp (color_lerp mixColor (colMain tn) 0.2)
                             (colLight tn) ((u - 0.5) * 2.5));
                m2 = (if u > 0.92 then color_lerp m1 (colTip tn) 0.8 else m1)
            in if \<bar>v - 0.5\<bar> < 0.05 then color_lerp m2 (colLight tn) 0.3 else m2))"

section \<open>Geometry generator: the \<^verbatim>\<open>useMemo\<close> block of \<^verbatim>\<open>LotusParticles\<close>\<close>

record LayerDef =
  count :: nat
  offset :: real

definition layersDef :: "LayerDef list" where
  "layersDef =
     [\<lparr>count = 5, offset = 0\<rparr>, \<lparr>count = 8, offset = 0.5\<rparr>, \<lparr>count = 12, offset = 0.0\<rparr>,
      \<lparr>count = 18, offset = 0.3\<rparr>, \<lparr>count = 24, offset = 0.1\<rparr>, \<lparr>count = 32, offset = 0.4\<rparr>]"

definition veins :: nat where
  "veins = 7"

definition auraCount :: nat where
  "auraCount = 8000"

definition totalPetals :: nat where
  "totalPetals = foldl (\<lambda>sum l. sum + count l) 0 layersDef"

definition particlesPerPetal :: "LotusConfig \<Rightarrow> int" where
  "particlesPerPetal config = \<lfloor>real_of_int (petalCount config) / real totalPetals\<rfloor>"

definition pointsPerVein :: "LotusConfig \<Rightarrow> int" where
  "pointsPerVein config = \<lfloor>real_of_int (particlesPerPetal config) / real veins\<rfloor>"

text \<open>
  The four growing arrays and the position in the stream of \<^verbatim>\<open>Math.random()\<close>
  results. The stream is a parameter \<open>rand :: nat \<Rightarrow> real\<close>; every call of
  \<^verbatim>\<open>Math.random()\<close> reads the next entry, in the source's evaluation order.
\<close>

record gen_state =
  tempPos :: "real list"
  tempCol :: "real list"
  tempInfo :: "real list"
  tempRand :: "real list"
  rng :: nat

definition emitPetalPoint ::
  "(nat \<Rightarrow> real) \<Rightarrow> Tones \<Rightarrow> nat \<Rightarrow> real \<Rightarrow> real \<Rightarrow> real \<Rightarrow> int \<Rightarrow> nat \<Rightarrow> gen_state \<Rightarrow> gen_state" where
  "emitPetalPoint rand tn layerIdx petalRotation layerYOffset vBase ppv i st =
     (let k = rng st;
          u0 = real i / real_of_int ppv + (rand k - 0.5) * 0.02;
          v0 = vBase + (rand (k + 1) - 0.5) * 0.05;
          u = max 0 (min 1 u0);
          v = max 0 (min 1 v0);
          (vec, maxAngle) = calculatePetalShape u v layerIdx (length layersDef);
          mixColor = petalColor tn layerIdx u v
      in \<lparr>tempPos = tempPos st @ [vec_x vec, vec_y vec, vec_z vec],
          tempCol = tempCol st @ [col_r mixColor, col_g mixColor, col_b mixColor],
          tempInfo = tempInfo st @ [petalRotation, maxAngle, layerYOffset],
          tempRand = tempRand st @
            [(rand (k + 2) - 0.5) * 30, (rand (k + 3) - 0.5) * 20, (rand (k + 4) - 0.5) * 20],
          rng = k + 5\<rparr>)"

definition veinLoop ::
  "(nat \<Rightarrow> real) \<Rightarrow> Tones \<Rightarrow> nat \<Rightarrow> real \<Rightarrow> real \<Rightarrow> int \<Rightarrow> nat \<Rightarrow> gen_state \<Rightarrow> gen_state" where
  "veinLoop rand tn layerIdx petalRotation layerYOffset ppv vIdx st =
     (let vBase = (real vIdx + 0.5) / real veins
      in fold (emitPetalPoint rand tn layerIdx petalRotation layerYOffset vBase ppv)
           [0..<nat ppv] st)"

definition petalLoop ::
  "(nat \<Rightarrow> real) \<Rightarrow> Tones \<Rightarrow> LotusConfig \<Rightarrow> LayerDef \<Rightarrow> nat \<Rightarrow> nat \<Rightarrow> gen_state \<Rightarrow> gen_state" where
  "petalLoop rand tn config layer layerIdx p st =
     (let petalsInLayer = count layer;
          angleStep = (pi * 2) / real petalsInLayer;
          petalRotation = real p * angleStep + offset layer;
          layerYOffset = - (real layerIdx * 0.25)
      in fold (veinLoop rand tn layerIdx petalRotation layerYOffset (pointsPerVein config))
           [0..<veins] st)"

definition layerLoop ::
  "(nat \<Rightarrow> real) \<Rightarrow> Tones \<Rightarrow> LotusConfig \<Rightarrow> LayerDef \<times> nat \<Rightarrow> gen_state \<Rightarrow> gen_state" where
  "layerLoop rand tn config = (\<lambda>(layer, layerIdx) st.
     fold (petalLoop rand tn config layer layerIdx) [0..<count layer] st)"

definition emitAura :: "(nat \<Rightarrow> real) \<Rightarrow> Tones \<Rightarrow> nat \<Rightarrow> gen_state \<Rightarrow> gen_state" where
  "emitAura rand tn i st =
     (let k = rng st;
          r = 2 + rand k * 8;
          theta = rand (k + 1) * pi * 2;
          y = (rand (k + 2) - 0.5) * 10;
          auraCol = (if rand (k + 6) > 0.5 then colLight tn else colMain tn)
      in \<lparr>tempPos = tempPos st @ [r * cos theta, y, r * sin theta],
          tempCol = tempCol st @ [col_r auraCol * 0.6, col_g auraCol * 0.6, col_b auraCol * 0.6],
          tempInfo = tempInfo st @ [0, - 1.0, 0],
          tempRand = tempRand st @
            [(rand (k + 3) - 0.5) * 40, (rand (k + 4) - 0.5) * 30, (rand (k + 5) - 0.5) * 40],
          rng = k + 7\<rparr>)"

text \<open>
  The returned attribute arrays. The conversion to \<^verbatim>\<open>Float32Array\<close> keeps the
  length and, on reals, the entries.
\<close>

record ParticleBuffers =
  positions :: "real list"
  colors :: "real list"
  infos :: "real list"
  randoms :: "real list"

definition petalPhase :: "(nat \<Rightarrow> real) \<Rightarrow> Tones \<Rightarrow> LotusConfig \<Rightarrow> gen_state" where
  "petalPhase rand tn config =
     fold (layerLoop rand tn config) (zip layersDef [0..<length layersDef])
       \<lparr>tempPos = [], tempCol = [], tempInfo = [], tempRand = [], rng = 0\<rparr>"

definition generate ::
  "(string \<Rightarrow> Tones) \<Rightarrow> (nat \<Rightarrow> real) \<Rightarrow> LotusConfig \<Rightarrow> string \<Rightarrow> ParticleBuffers" where
  "generate tones rand config activeColor =
     (let tn = tones activeColor;
          st = fold (emitAura rand tn) [0..<auraCount] (petalPhase rand tn config)
      in \<lparr>positions = tempPos st, colors = tempCol st,
          infos = tempInfo st, randoms = tempRand st\<rparr>)"

text \<open>
  The renderer reads the arrays in items of three: the particle count is
  \<^verbatim>\<open>positions.length / 3\<close>, and item \<open>k\<close> of an array is its entries
  \<open>3k\<close>, \<open>3k+1\<close>, \<open>3k+2\<close>.
\<close>

definition particleCount :: "ParticleBuffers \<Rightarrow> nat" where
  "particleCount bufs = length (positions bufs) div 3"

definition item :: "real list \<Rightarrow> nat \<Rightarrow> Vector3" where
  "item buf k = \<lparr>vec_x = buf ! (3 * k), vec_y = buf ! (3 * k + 1), vec_z = buf ! (3 * k + 2)\<rparr>"

text \<open>The number of particles that the petal loops emit, by the source's loop bounds.\<close>

definition petalParticles :: "LotusConfig \<Rightarrow> nat" where
  "petalParticles config = (\<Sum>l\<leftarrow>layersDef. count l * veins * nat (pointsPerVein config))"

section \<open>Vertex shader\<close>

definition isAura :: "Vector3 \<Rightarrow> bool" where
  "isAura aInfo = (vec_y aInfo < - 0.5)"

definition currentAngle :: "Vector3 \<Rightarrow> real \<Rightarrow> real" where
  "currentAngle aInfo uBloomState =
     (let cycle = smoothstep 0.0 1.0 uBloomState;
          targetAngle = vec_y aInfo;
          closedAngle = targetAngle * 0.15
      in mix closedAngle targetAngle cycle)"

text \<open>
  The formed position of a particle after the petal or aura animation and the global
  vibration, before it is blended with the chaos position.
\<close>

definition flowerPos :: "real \<Rightarrow> real \<Rightarrow> Vector3 \<Rightarrow> Vector3 \<Rightarrow> Vector3" where
  "flowerPos uTime uBloomState position aInfo =
     (let fp =
        (if \<not> isAura aInfo then
           (let c = cos (currentAngle aInfo uBloomState);
                s = sin (currentAngle aInfo uBloomState);
                posRotatedX = \<lparr>vec_x = vec_x position,
                               vec_y = vec_y position * c - vec_z position * s,
                               vec_z = vec_y position * s + vec_z position * c\<rparr>;
                rotY = vec_x aInfo;
                cy = cos rotY;
                sy = sin rotY
            in \<lparr>vec_x = vec_x posRotatedX * cy - vec_z posRotatedX * sy,
                vec_y = vec_y posRotatedX + vec_z aInfo - 1.5,
                vec_z = vec_x posRotatedX * sy + vec_z posRotatedX * cy\<rparr>)
         else
           (let y' = vec_y position + sin (uTime * 0.5 + vec_x position * 2.0) * 0.3
            in \<lparr>vec_x = vec_x position + cos (uTime * 0.3 + vec_z position) * 0.1,
                vec_y = y', vec_z = vec_z position\<rparr>))
      in fp\<lparr>vec_x := vec_x fp + sin (uTime * 5.0 + vec_y fp) * 0.005\<rparr>)"

text \<open>
  The two rotations that the specification names in the transform stage, written as
  plane rotations: about the local lateral (x) axis, turning the (y, z) plane by the
  angle, and about the vertical (y) axis, turning the (x, z) plane by the angle. They
  are used only to state what \<^const>\<open>flowerPos\<close> computes.
\<close>

definition rotateLateral :: "real \<Rightarrow> Vector3 \<Rightarrow> Vector3" where
  "rotateLateral a p =
     \<lparr>vec_x = vec_x p,
      vec_y = vec_y p * cos a - vec_z p * sin a,
      vec_z = vec_y p * sin a + vec_z p * cos a\<rparr>"

definition rotateVertical :: "real \<Rightarrow> Vector3 \<Rightarrow> Vector3" where
  "rotateVertical a p =
     \<lparr>vec_x = vec_x p * cos a - vec_z p * sin a,
      vec_y = vec_y p,
      vec_z = vec_x p * sin a + vec_z p * cos a\<rparr>"

section \<open>Gesture classifier: \<^verbatim>\<open>predict\<close> of \<^verbatim>\<open>HandTracker\<close>\<close>

record Landmark =
  lm_x :: real
  lm_y :: real
  lm_z :: real

definition dist_lm :: "Landmark \<Rightarrow> Landmark \<Rightarrow> real" where
  "dist_lm p1 p2 = sqrt ((lm_x p1 - lm_x p2) ^ 2 + (lm_y p1 - lm_y p2) ^ 2 + (lm_z p1 - lm_z p2) ^ 2)"

definition fingers :: "nat list" where
  "fingers = [8, 12, 16, 20]"

definition pips :: "nat list" where
  "pips = [6, 10, 14, 18]"

definition extended :: "Landmark list \<Rightarrow> nat \<Rightarrow> bool" where
  "extended landmarks i =
     (let wrist = landmarks ! 0;
          dTip = dist_lm wrist (landmarks ! (fingers ! i));
          dPip = dist_lm wrist (landmarks ! (pips ! i))
      in dTip > dPip)"

definition extendedCount :: "Landmark list \<Rightarrow> nat" where
  "extendedCount landmarks =
     fold (\<lambda>i extendedCount. if extended landmarks i then extendedCount + 1 else extendedCount)
       [0..<4] 0"

text \<open>
  The classification of one hand. The source reads the entries 0, 6, 8, 10, 12, 14,
  16, 18 and 20 of the landmark array; reading a coordinate of a missing entry throws
  a \<^verbatim>\<open>TypeError\<close>, which is the result \<open>None\<close>. All nine entries exist exactly
  when the array has at least 21 entries.
\<close>

definition isHandOpen :: "Landmark list \<Rightarrow> bool option" where
  "isHandOpen landmarks =
     (if length landmarks < 21 then None else Some (extendedCount landmarks \<ge> 3))"

text \<open>
  One call of \<^verbatim>\<open>predict\<close>. The state holds \<^verbatim>\<open>lastVideoTimeRef\<close>, the
  \<^verbatim>\<open>handDetected\<close> cell, and the two cells of \<^verbatim>\<open>App\<close> that the callbacks
  \<^verbatim>\<open>onPresenceChange\<close> and \<^verbatim>\<open>onBloomChange\<close> set; \<open>detectCalls\<close> counts the
  calls of \<^verbatim>\<open>detectForVideo\<close>, and \<open>scheduled\<close> tells whether the call reached
  \<^verbatim>\<open>requestAnimationFrame(predict)\<close>. The landmark detector is a black box: the tick
  input carries what it returns for the current frame.
\<close>

record tracker_state =
  lastVideoTime :: real
  handDetected :: bool
  appIsHandPresent :: bool
  appIsBlooming :: bool
  detectCalls :: nat
  scheduled :: bool

record tick_input =
  landmarkerLoaded :: bool
  videoMounted :: bool
  readyState :: nat
  currentTime :: real
  detection :: "Landmark list list"

definition predict :: "tick_input \<Rightarrow> tracker_state \<Rightarrow> tracker_state" where
  "predict inp s =
     (if landmarkerLoaded inp \<and> videoMounted inp \<and> readyState inp \<ge> 2 then
        (if currentTime inp \<noteq> lastVideoTime s then
           (let s1 = s\<lparr>lastVideoTime := currentTime inp, detectCalls := detectCalls s + 1\<rparr>
            in if length (detection inp) > 0 then
                 (let s2 = s1\<lparr>handDetected := True, appIsHandPresent := True\<rparr>
                  in case isHandOpen (detection inp ! 0) of
                       None \<Rightarrow> s2\<lparr>scheduled := False\<rparr>
                     | Some isOpen \<Rightarrow> s2\<lparr>appIsBlooming := isOpen, scheduled := True\<rparr>)
               else s1\<lparr>handDetected := False, appIsHandPresent := False,
                       appIsBlooming := False, scheduled := True\<rparr>)
         else s\<lparr>scheduled := True\<rparr>)
      else s\<lparr>scheduled := True\<rparr>)"

text \<open>
  The cells at mount: \<^verbatim>\<open>useRef(-1)\<close> for the recorded time and
  \<^verbatim>\<open>useState(false)\<close> for the three flags; nothing is scheduled before the
  \<^verbatim>\<open>loadeddata\<close> listener makes the first call.
\<close>

definition initialTracker :: tracker_state where
  "initialTracker =
     \<lparr>lastVideoTime = - 1, handDetected = False, appIsHandPresent = False,
      appIsBlooming = False, detectCalls = 0, scheduled = False\<rparr>"

section \<open>Swipe colour selection: \<^verbatim>\<open>handleSwipe\<close> of \<^verbatim>\<open>App\<close>\<close>

definition PALETTE :: "string list" where
  "PALETTE = [''#ffa6c9'', ''#0088ff'', ''#ffcc00'', ''#9900ff'']"

text \<open>
  The state update of \<^verbatim>\<open>handleSwipe\<close>, for a palette, the value \<open>r\<close> that
  \<^verbatim>\<open>Math.random()\<close> returns and the previous colour. Reading an array outside its
  range gives \<^verbatim>\<open>undefined\<close>, the result \<open>None\<close>.
\<close>

definition swipeIndex :: "real \<Rightarrow> nat \<Rightarrow> int" where
  "swipeIndex r n = \<lfloor>r * real n\<rfloor>"

definition handleSwipe :: "string list \<Rightarrow> real \<Rightarrow> string \<Rightarrow> string option" where
  "handleSwipe palette r prev =
     (let available = filter (\<lambda>c. c \<noteq> prev) palette;
          i = swipeIndex r (length available)
      in if 0 \<le> i \<and> nat i < length available then Some (available ! nat i) else None)"

section \<open>Blocks of items\<close>

text \<open>
  Notions for the proofs about the generated arrays. A list holds \<open>n\<close> items of three
  entries each, and every item satisfies \<open>P\<close>.
\<close>

definition items :: "(Vector3 \<Rightarrow> bool) \<Rightarrow> nat \<Rightarrow> real list \<Rightarrow> bool" where
  "items P n ys = (length ys = 3 * n \<and> (\<forall>k<n. P (item ys k)))"

text \<open>
  The layer of a petal particle. The loop over the layer table pushes, for the layers
  in table order, \<^verbatim>\<open>count * veins * pointsPerVein\<close> particles each; particle \<open>k\<close>
  of the arrays is pushed while the loop is at the layer in whose run \<open>k\<close> falls.
\<close>

fun blockOf :: "nat list \<Rightarrow> nat \<Rightarrow> nat" where
  "blockOf [] k = 0"
| "blockOf (n # ns) k = (if k < n then 0 else Suc (blockOf ns (k - n)))"

definition layerSizes :: "LotusConfig \<Rightarrow> nat list" where
  "layerSizes config = map (\<lambda>l. count l * veins * nat (pointsPerVein config)) layersDef"

definition layerOfParticle :: "LotusConfig \<Rightarrow> nat \<Rightarrow> nat" where
  "layerOfParticle config k = blockOf (layerSizes config) k"

section \<open>Concrete inputs\<close>

text \<open>Tones used where a statement is evaluated at a concrete input.\<close>

definition sampleTones :: Tones where
  "sampleTones =
     \<lparr>colDeep = \<lparr>col_r = 0.6, col_g = 0.25, col_b = 0.4\<rparr>,
      colMain = \<lparr>col_r = 1, col_g = 0.65, col_b = 0.8\<rparr>,
      colLight = \<lparr>col_r = 1, col_g = 0.9, col_b = 0.95\<rparr>,
      colTip = \<lparr>col_r = 1, col_g = 1, col_b = 1\<rparr>,
      colGold = \<lparr>col_r = 1, col_g = 2 / 3, col_b = 0\<rparr>\<rparr>"

text \<open>
  A hand laid along the x axis: the wrist at the origin, the four PIP joints at
  distance 1 and the four finger tips at the given distances.
\<close>

definition handOnAxis :: "real \<Rightarrow> real \<Rightarrow> real \<Rightarrow> real \<Rightarrow> Landmark list" where
  "handOnAxis a b c d =
     map (\<lambda>i. \<lparr>lm_x = (if i = 8 then a else if i = 12 then b else if i = 16 then c
                        else if i = 20 then d
                        else if i = 6 \<or> i = 10 \<or> i = 14 \<or> i = 18 then 1 else 0),
               lm_y = 0, lm_z = 0\<rparr>) [0..<21]"

section \<open>Properties of the state smoother\<close>

lemma lerp_alt: "lerp x y t = x + (y - x) * t"
  by (simp add: lerp_def algebra_simps)

lemma lerp_up:
  assumes "0 \<le> t" "t \<le> 1" "x \<le> y"
  shows "x \<le> lerp x y t \<and> lerp x y t \<le> y"
proof -
  have "0 \<le> (y - x) * t"
    using assms by simp
  moreover have "(y - x) * t \<le> (y - x) * 1"
    using assms by (intro mult_left_mono) simp_all
  ultimately show ?thesis
    by (simp add: lerp_alt)
qed

lemma lerp_down:
  assumes "0 \<le> t" "t \<le> 1" "y \<le> x"
  shows "y \<le> lerp x y t \<and> lerp x y t \<le> x"
proof -
  have "0 \<le> (x - y) * t"
    using assms by simp
  moreover have "(x - y) * t \<le> (x - y) * 1"
    using assms by (intro mult_left_mono) simp_all
  moreover have "lerp x y t = x - (x - y) * t"
    by (simp add: lerp_def algebra_simps)
  ultimately show ?thesis
    by simp
qed

lemma lerp_towards:
  assumes "0 \<le> t" "t \<le> 1" "0 \<le> x" "x \<le> 1"
  shows "(if b then x \<le> lerp x (if b then 1 else 0) t \<and> lerp x (if b then 1 else 0) t \<le> 1
          else 0 \<le> lerp x (if b then 1 else 0) t \<and> lerp x (if b then 1 else 0) t \<le> x)"
  using lerp_up [of t x 1] lerp_down [of t 0 x] assms by simp

text \<open>
  Within the cap: when the elapsed time keeps the interpolation factor at most one
  (half a second for the bloom amount, two thirds of a second for the form amount),
  the new amount lies between the old amount and the target, hence in [0,1].
\<close>

lemma useFrame_within_cap:
  assumes "0 \<le> currentBloom s" "currentBloom s \<le> 1"
      and "0 \<le> currentForm s" "currentForm s \<le> 1"
      and "0 \<le> delta"
      and s': "s' = useFrame config isBlooming isHandPresent delta s"
  shows "(delta * 2 \<le> 1 \<longrightarrow>
           (if isBlooming then currentBloom s \<le> currentBloom s' \<and> currentBloom s' \<le> 1
            else 0 \<le> currentBloom s' \<and> currentBloom s' \<le> currentBloom s))
       \<and> (delta * 1.5 \<le> 1 \<longrightarrow>
           (if isHandPresent then currentForm s \<le> currentForm s' \<and> currentForm s' \<le> 1
            else 0 \<le> currentForm s' \<and> currentForm s' \<le> currentForm s))"
proof (intro conjI impI)
  assume d: "delta * 2 \<le> 1"
  have "0 \<le> delta * 2"
    using assms(5) by simp
  from lerp_towards [OF this d assms(1,2), of isBlooming]
  show "if isBlooming then currentBloom s \<le> currentBloom s' \<and> currentBloom s' \<le> 1
        else 0 \<le> currentBloom s' \<and> currentBloom s' \<le> currentBloom s"
    by (simp add: s' useFrame_def split: if_splits)
next
  assume d: "delta * 1.5 \<le> 1"
  have "0 \<le> delta * 1.5"
    using assms(5) by simp
  from lerp_towards [OF this d assms(3,4), of isHandPresent]
  show "if isHandPresent then currentForm s \<le> currentForm s' \<and> currentForm s' \<le> 1
        else 0 \<le> currentForm s' \<and> currentForm s' \<le> currentForm s"
    by (simp add: s' useFrame_def split: if_splits)
qed

text \<open>
  The update of the code in closed form; it is the rule of the specification whenever
  the factor \<open>dt * rate\<close> is at most one.
\<close>

lemma useFrame_closed_form:
  fixes s :: anim_state
  defines "tb \<equiv> (\<lambda>b::bool. if b then 1 else (0::real))"
  shows "currentBloom (useFrame config isBlooming isHandPresent delta s)
           = currentBloom s + (tb isBlooming - currentBloom s) * (delta * 2.0)
       \<and> currentForm (useFrame config isBlooming isHandPresent delta s)
           = currentForm s + (tb isHandPresent - currentForm s) * (delta * 1.5)
       \<and> (delta * 2.0 \<le> 1 \<longrightarrow>
            currentBloom (useFrame config isBlooming isHandPresent delta s)
              = spec_smooth 2.0 (tb isBlooming) delta (currentBloom s))
       \<and> (delta * 1.5 \<le> 1 \<longrightarrow>
            currentForm (useFrame config isBlooming isHandPresent delta s)
              = spec_smooth 1.5 (tb isHandPresent) delta (currentForm s))"
  by (simp add: useFrame_def lerp_alt spec_smooth_def tb_def min_def)

text \<open>
  Claim C1: from bloom and form amounts in [0,1] and any non-negative elapsed time, a
  frame moves each amount toward its target without overshooting and keeps it in
  [0,1]. The source's comments give that range for both uniforms (0 closed, 1 open;
  0 chaos, 1 formed; ``varies from 0.0 to 1.0''), but the code omits the cap of the
  interpolation factor at one. A frame of one second from a closed flower with an open
  hand present writes 2 to the bloom amount and 1.5 to the form amount, and a frame of
  five seconds from an open flower with the hand closed writes -9.
\<close>

theorem useFrame_overshoots:
  "currentBloom (useFrame appConfig True True 1
      \<lparr>rotationY = 0, currentBloom = 0, currentForm = 0\<rparr>) = 2
   \<and> currentForm (useFrame appConfig True True 1
      \<lparr>rotationY = 0, currentBloom = 0, currentForm = 0\<rparr>) = 3 / 2
   \<and> \<not> currentBloom (useFrame appConfig True True 1
      \<lparr>rotationY = 0, currentBloom = 0, currentForm = 0\<rparr>) \<le> 1
   \<and> currentBloom (useFrame appConfig False True 5
      \<lparr>rotationY = 0, currentBloom = 1, currentForm = 1\<rparr>) = - 9"
  by (simp add: useFrame_def lerp_def)

text \<open>
  Claim C2: each frame updates the bloom amount by
  \<open>(target - amount) * min(1, dt * 2.0)\<close>, and the form amount likewise with rate
  1.5, the targets being the hand-open and hand-present booleans cast to 0 or 1. The
  code omits the cap \<open>min(1, \<dots>)\<close>: after a frame of one second from a closed,
  scattered flower with an open hand present it yields 2 and 1.5, where the stated
  rule yields 1 and 1.
\<close>

theorem useFrame_not_capped:
  "currentBloom (useFrame appConfig True True 1
      \<lparr>rotationY = 0, currentBloom = 0, currentForm = 0\<rparr>) = 2
   \<and> spec_smooth 2.0 1 1 0 = 1
   \<and> currentForm (useFrame appConfig True True 1
      \<lparr>rotationY = 0, currentBloom = 0, currentForm = 0\<rparr>) = 3 / 2
   \<and> spec_smooth 1.5 1 1 0 = 1"
  by (simp add: useFrame_def lerp_def spec_smooth_def)

section \<open>Lengths of the generated arrays\<close>

lemma totalPetals_eq: "totalPetals = 99"
  by (simp add: totalPetals_def layersDef_def)

lemma floor_div_num: "\<lfloor>real_of_int a / real n\<rfloor> = a div int n"
  using floor_divide_of_int_eq [of a "int n", where ?'a = real] by simp

lemma particlesPerPetal_div: "particlesPerPetal config = petalCount config div 99"
  unfolding particlesPerPetal_def totalPetals_eq floor_div_num by simp

lemma pointsPerVein_div: "pointsPerVein config = petalCount config div 99 div 7"
  unfolding pointsPerVein_def veins_def floor_div_num particlesPerPetal_div by simp

lemma calculatePetalShape_angle:
  "snd (calculatePetalShape u v i n) = 0.2 + (real i / real n) powr 1.5 * 1.5"
  by (simp add: calculatePetalShape_def Let_def)

lemma fold_length_add:
  assumes "\<And>x s. length (f (g x s)) = length (f s) + c"
  shows "length (f (fold g xs s)) = length (f s) + c * length xs"
  using assms by (induction xs arbitrary: s) simp_all

lemma emitPetalPoint_length:
  "length (tempPos (emitPetalPoint rand tn li pr ly vb ppv i st)) = length (tempPos st) + 3"
  by (simp add: emitPetalPoint_def Let_def split: prod.splits)

lemma veinLoop_length:
  "length (tempPos (veinLoop rand tn li pr ly ppv vIdx st)) = length (tempPos st) + 3 * nat ppv"
  by (simp add: veinLoop_def fold_length_add [where c = 3] emitPetalPoint_length)

lemma petalLoop_length:
  "length (tempPos (petalLoop rand tn config layer li p st))
     = length (tempPos st) + (3 * nat (pointsPerVein config)) * veins"
  by (simp add: petalLoop_def Let_def
      fold_length_add [where c = "3 * nat (pointsPerVein config)"] veinLoop_length)

lemma layerLoop_length:
  "length (tempPos (layerLoop rand tn config (layer, li) st))
     = length (tempPos st) + (3 * nat (pointsPerVein config) * veins) * count layer"
  by (simp add: layerLoop_def
      fold_length_add [where c = "3 * nat (pointsPerVein config) * veins"] petalLoop_length)

lemma petalPhase_length:
  "length (tempPos (petalPhase rand tn config)) = 3 * petalParticles config"
  by (simp add: petalPhase_def petalParticles_def layersDef_def layerLoop_length)

lemma emitAura_length:
  "length (tempPos (emitAura rand tn i st)) = length (tempPos st) + 3"
  by (simp add: emitAura_def Let_def)

lemma generate_length:
  "length (positions (generate tones rand config activeColor))
     = 3 * (petalParticles config + auraCount)"
  by (simp add: generate_def Let_def fold_length_add [where c = 3] emitAura_length
      petalPhase_length)

lemma particleCount_generate:
  "particleCount (generate tones rand config activeColor) = petalParticles config + auraCount"
  by (simp add: particleCount_def generate_length)


lemma petalParticles_eq: "petalParticles config = 693 * nat (pointsPerVein config)"
  by (simp add: petalParticles_def layersDef_def veins_def)

lemma layer_sum_eq:
  "(\<Sum>l\<leftarrow>layersDef. int (count l) * int veins * pointsPerVein config)
     = 693 * pointsPerVein config"
  by (simp add: layersDef_def veins_def)

section \<open>Particle count\<close>

text \<open>
  Claim C3, as stated: for a positive particle target the number of generated
  particles is the sum over the six layers of petals times seven veins times points
  per vein, plus the 8000 aura particles, is not negative and is at most the target.
  The aura particles are added after the petal count was cut to the target: the
  configuration of \<^verbatim>\<open>App\<close>, with target 80000, generates 87695 particles.
\<close>

theorem aura_exceeds_target:
  "particleCount (generate (\<lambda>c. sampleTones) (\<lambda>n. 0) appConfig ''#ffa6c9'') = 87695
   \<and> \<not> int (particleCount (generate (\<lambda>c. sampleTones) (\<lambda>n. 0) appConfig ''#ffa6c9''))
        \<le> petalCount appConfig"
  by (simp add: particleCount_generate petalParticles_eq pointsPerVein_div appConfig_def
      auraCount_def)

text \<open>
  Claim C3, amended: for a positive particle target the number of generated particles
  is the sum over the six layers of petals times seven veins times points per vein,
  plus the 8000 aura particles, is not negative, and without the aura particles it is
  at most the target (so the whole is at most the target plus 8000).
\<close>

theorem generate_count:
  assumes "0 < petalCount config"
  shows "int (particleCount (generate tones rand config activeColor))
           = (\<Sum>l\<leftarrow>layersDef. int (count l) * int veins * pointsPerVein config) + int auraCount
       \<and> 0 \<le> int (particleCount (generate tones rand config activeColor))
       \<and> int (particleCount (generate tones rand config activeColor)) - int auraCount
           \<le> petalCount config"
proof -
  have nonneg: "0 \<le> pointsPerVein config"
    using assms by (simp add: pointsPerVein_div pos_imp_zdiv_nonneg_iff)
  have "7 * (petalCount config div 99 div 7) \<le> petalCount config div 99"
    by simp
  moreover have "99 * (petalCount config div 99) \<le> petalCount config"
    by simp
  ultimately have "693 * pointsPerVein config \<le> petalCount config"
    unfolding pointsPerVein_div by linarith
  with nonneg show ?thesis
    by (simp add: particleCount_generate petalParticles_eq layer_sum_eq)
qed

theorem generate_count_witness:
  "0 < petalCount appConfig
   \<and> int (particleCount (generate (\<lambda>c. sampleTones) (\<lambda>n. 0) appConfig ''#ffa6c9'')) = 87695
   \<and> int (particleCount (generate (\<lambda>c. sampleTones) (\<lambda>n. 0) appConfig ''#ffa6c9'')) - 8000
        \<le> petalCount appConfig"
  using generate_count [of appConfig "\<lambda>c. sampleTones" "\<lambda>n. 0" "''#ffa6c9''",
      unfolded layer_sum_eq]
  by (simp add: pointsPerVein_div appConfig_def auraCount_def)

section \<open>Opening angle of the layers\<close>

text \<open>
  Claim C5: for layer indices \<open>i \<le> j\<close> of the six-layer table, the maximal opening
  angle that \<^verbatim>\<open>calculatePetalShape\<close> returns for layer \<open>i\<close> is at most the one for
  layer \<open>j\<close>, whatever the surface coordinates.
\<close>

theorem maxOpenAngle_mono:
  assumes "i \<le> j" "j < length layersDef"
  shows "snd (calculatePetalShape u v i (length layersDef))
           \<le> snd (calculatePetalShape u' v' j (length layersDef))"
proof -
  have "real i / real (length layersDef) \<le> real j / real (length layersDef)"
    using assms by (simp add: divide_right_mono)
  then have "(real i / real (length layersDef)) powr 1.5
               \<le> (real j / real (length layersDef)) powr 1.5"
    by (intro powr_mono2) simp_all
  then show ?thesis
    by (simp add: calculatePetalShape_angle)
qed

theorem maxOpenAngle_mono_witness:
  "(2::nat) \<le> 5 \<and> 5 < length layersDef
   \<and> snd (calculatePetalShape 0 0 2 (length layersDef))
       \<le> snd (calculatePetalShape 1 1 5 (length layersDef))"
  using maxOpenAngle_mono [of 2 5 0 0 1 1] by (simp add: layersDef_def)

section \<open>The layer-count field\<close>

lemma pointsPerVein_layers: "pointsPerVein (config\<lparr>layers := n\<rparr>) = pointsPerVein config"
  by (simp add: pointsPerVein_def particlesPerPetal_def)

lemma petalLoop_layers:
  "petalLoop rand tn (config\<lparr>layers := n\<rparr>) = petalLoop rand tn config"
  by (intro ext) (simp add: petalLoop_def pointsPerVein_layers)

lemma layerLoop_layers:
  "layerLoop rand tn (config\<lparr>layers := n\<rparr>) = layerLoop rand tn config"
  by (simp add: layerLoop_def petalLoop_layers)

lemma petalPhase_layers:
  "petalPhase rand tn (config\<lparr>layers := n\<rparr>) = petalPhase rand tn config"
  by (simp add: petalPhase_def layerLoop_layers)

text \<open>
  Claim C9: changing only the \<open>layers\<close> field of the configuration, with the same
  random stream, tones and active colour, leaves all four generated arrays the same;
  the generator walks the fixed table with petal counts 5, 8, 12, 18, 24, 32.
\<close>

theorem generate_ignores_layers:
  "generate tones rand (config\<lparr>layers := n\<rparr>) activeColor = generate tones rand config activeColor
   \<and> map count layersDef = [5, 8, 12, 18, 24, 32]"
  by (simp add: generate_def petalPhase_layers layersDef_def)

section \<open>Gesture classifier\<close>

lemma fold_count:
  "fold (\<lambda>i c. if P i then c + 1 else c) xs n = n + length (filter P xs)"
  by (induction xs arbitrary: n) simp_all

lemma extendedCount_card:
  "extendedCount landmarks = card {i \<in> {0..<4}. extended landmarks i}"
proof -
  have "extendedCount landmarks = length (filter (extended landmarks) [0..<4])"
    by (simp add: extendedCount_def fold_count)
  also have "\<dots> = card ({i. extended landmarks i} \<inter> set [0..<4])"
    by (rule distinct_length_filter) simp
  also have "{i. extended landmarks i} \<inter> set [0..<4] = {i \<in> {0..<4}. extended landmarks i}"
    by auto
  finally show ?thesis .
qed

text \<open>
  Claim C4: for a landmark set (of the 21 landmarks that the detector delivers) in
  which the distance from the wrist to the tip exceeds the distance from the wrist to
  the PIP joint for exactly \<open>k\<close> of the four fingers, the classifier reports an open
  hand exactly when \<open>k \<ge> 3\<close>: open for \<open>k = 3\<close>, closed for \<open>k = 2\<close>. A tick that
  runs the detector and gets this landmark set emits that value as the hand-open
  signal, with the hand-present signal set.
\<close>

theorem isHandOpen_three_of_four:
  assumes "21 \<le> length landmarks"
      and "card {i \<in> {0..<4}. dist_lm (landmarks ! 0) (landmarks ! ([8, 12, 16, 20] ! i))
                                > dist_lm (landmarks ! 0) (landmarks ! ([6, 10, 14, 18] ! i))} = k"
  shows "isHandOpen landmarks = Some (3 \<le> k)
       \<and> (landmarkerLoaded inp \<and> videoMounted inp \<and> 2 \<le> readyState inp
            \<and> currentTime inp \<noteq> lastVideoTime s \<and> detection inp = landmarks # rest
          \<longrightarrow> appIsBlooming (predict inp s) = (3 \<le> k) \<and> appIsHandPresent (predict inp s))"
proof -
  have "isHandOpen landmarks = Some (3 \<le> k)"
    using assms
    by (simp add: isHandOpen_def extendedCount_card extended_def fingers_def pips_def Let_def)
  then show ?thesis
    by (simp add: predict_def Let_def)
qed

lemma handOnAxis_nth:
  "i < 21 \<Longrightarrow> handOnAxis a b c d ! i =
     \<lparr>lm_x = (if i = 8 then a else if i = 12 then b else if i = 16 then c
              else if i = 20 then d
              else if i = 6 \<or> i = 10 \<or> i = 14 \<or> i = 18 then 1 else 0),
      lm_y = 0, lm_z = 0\<rparr>"
  by (simp add: handOnAxis_def)

lemma four_set: "{0..<4::nat} = {0, 1, 2, 3}"
  by auto

theorem isHandOpen_three_of_four_witness:
  "21 \<le> length (handOnAxis 2 2 2 (1/2))
   \<and> isHandOpen (handOnAxis 2 2 2 (1/2)) = Some True
   \<and> isHandOpen (handOnAxis 2 2 (1/2) (1/2)) = Some False
   \<and> appIsBlooming (predict
        \<lparr>landmarkerLoaded = True, videoMounted = True, readyState = 4,
          currentTime = 2, detection = [handOnAxis 2 2 2 (1/2)]\<rparr>
        \<lparr>lastVideoTime = 1, handDetected = False, appIsHandPresent = False,
          appIsBlooming = False, detectCalls = 7, scheduled = True\<rparr>)"
proof -
  have len: "\<And>a b c d. 21 \<le> length (handOnAxis a b c d)"
    by (simp add: handOnAxis_def)
  have three: "card {i \<in> {0..<4}. dist_lm (handOnAxis 2 2 2 (1/2) ! 0) (handOnAxis 2 2 2 (1/2) ! ([8, 12, 16, 20] ! i))
                                > dist_lm (handOnAxis 2 2 2 (1/2) ! 0) (handOnAxis 2 2 2 (1/2) ! ([6, 10, 14, 18] ! i))} = 3"
  proof -
    have "{i \<in> {0..<4}. dist_lm (handOnAxis 2 2 2 (1/2) ! 0) (handOnAxis 2 2 2 (1/2) ! ([8, 12, 16, 20] ! i))
                                > dist_lm (handOnAxis 2 2 2 (1/2) ! 0) (handOnAxis 2 2 2 (1/2) ! ([6, 10, 14, 18] ! i))} = {0, 1, 2}"
      unfolding four_set by (auto simp: handOnAxis_nth dist_lm_def power2_eq_square)
    then show ?thesis by simp
  qed
  have two: "card {i \<in> {0..<4}. dist_lm (handOnAxis 2 2 (1/2) (1/2) ! 0) (handOnAxis 2 2 (1/2) (1/2) ! ([8, 12, 16, 20] ! i))
                                > dist_lm (handOnAxis 2 2 (1/2) (1/2) ! 0) (handOnAxis 2 2 (1/2) (1/2) ! ([6, 10, 14, 18] ! i))} = 2"
  proof -
    have "{i \<in> {0..<4}. dist_lm (handOnAxis 2 2 (1/2) (1/2) ! 0) (handOnAxis 2 2 (1/2) (1/2) ! ([8, 12, 16, 20] ! i))
                                > dist_lm (handOnAxis 2 2 (1/2) (1/2) ! 0) (handOnAxis 2 2 (1/2) (1/2) ! ([6, 10, 14, 18] ! i))} = {0, 1}"
      unfolding four_set by (auto simp: handOnAxis_nth dist_lm_def power2_eq_square)
    then show ?thesis by simp
  qed
  show ?thesis
    using isHandOpen_three_of_four [OF len three, of
        "\<lparr>landmarkerLoaded = True, videoMounted = True, readyState = 4,
          currentTime = 2, detection = [handOnAxis 2 2 2 (1/2)]\<rparr>"
        "\<lparr>lastVideoTime = 1, handDetected = False, appIsHandPresent = False,
          appIsBlooming = False, detectCalls = 7, scheduled = True\<rparr>" "[]"]
      isHandOpen_three_of_four [OF len two] len
    by simp
qed


section \<open>Swipe colour selection\<close>

lemma swipeIndex_range:
  assumes "0 \<le> r" "r < 1" "0 < n"
  shows "0 \<le> swipeIndex r n \<and> nat (swipeIndex r n) < n"
proof -
  have "0 \<le> r * real n"
    using assms by simp
  then have lo: "0 \<le> swipeIndex r n"
    by (simp add: swipeIndex_def)
  have "r * real n < 1 * real n"
    using assms by (intro mult_strict_right_mono) simp_all
  then have "swipeIndex r n < int n"
    by (simp add: swipeIndex_def floor_less_iff)
  with lo show ?thesis
    by simp
qed

lemma swipeIndex_interval:
  assumes "0 < n"
  shows "swipeIndex r n = int k \<longleftrightarrow> real k / real n \<le> r \<and> r < real (k + 1) / real n"
proof -
  have "swipeIndex r n = int k \<longleftrightarrow> real k \<le> r * real n \<and> r * real n < real k + 1"
    by (simp add: swipeIndex_def floor_eq_iff)
  also have "\<dots> \<longleftrightarrow> real k / real n \<le> r \<and> r < real (k + 1) / real n"
    using assms by (simp add: pos_divide_le_eq pos_less_divide_eq add.commute)
  finally show ?thesis .
qed

lemma handleSwipe_Some:
  assumes "handleSwipe palette r prev = Some c"
  shows "c \<in> set palette \<and> c \<noteq> prev"
proof -
  let ?av = "filter (\<lambda>c. c \<noteq> prev) palette"
  from assms obtain i where "i < length ?av" and "c = ?av ! i"
    by (auto simp: handleSwipe_def Let_def split: if_splits)
  then have "c \<in> set ?av"
    using nth_mem [of i ?av] by blast
  then show ?thesis
    by simp
qed

text \<open>
  Claim C6: for a palette of at least two entries, a current colour of the palette
  and a random value \<open>r\<close> in [0,1), the swipe handler never returns the previous colour.
  It returns the entry of the palette-without-the-current-colour at index
  \<open>\<lfloor>r * n\<rfloor>\<close>, \<open>n\<close> being the number of those entries, so that each entry is
  chosen on an interval of random values of the same width \<open>1 / n\<close>. For a palette
  of distinct colours \<open>n\<close> is the palette size less one, and not zero.
\<close>

theorem handleSwipe_excludes_previous:
  assumes "2 \<le> length palette" "prev \<in> set palette" "0 \<le> r" "r < 1"
  defines "available \<equiv> filter (\<lambda>c. c \<noteq> prev) palette"
  shows "handleSwipe palette r prev \<noteq> Some prev
       \<and> (available \<noteq> [] \<longrightarrow>
            (\<exists>k<length available. swipeIndex r (length available) = int k
               \<and> handleSwipe palette r prev = Some (available ! k)
               \<and> available ! k \<in> set palette \<and> available ! k \<noteq> prev))
       \<and> (\<forall>k<length available.
            swipeIndex r (length available) = int k
              \<longleftrightarrow> real k / real (length available) \<le> r
                  \<and> r < real (k + 1) / real (length available))
       \<and> (distinct palette \<longrightarrow> length available = length palette - 1 \<and> available \<noteq> [])"
proof -
  have a: "handleSwipe palette r prev \<noteq> Some prev"
    using handleSwipe_Some [of palette r prev prev] by blast
  have b: "\<exists>k<length available. swipeIndex r (length available) = int k
          \<and> handleSwipe palette r prev = Some (available ! k)
          \<and> available ! k \<in> set palette \<and> available ! k \<noteq> prev"
    if ne: "available \<noteq> []"
  proof -
    from ne have pos: "0 < length available"
      by simp
    let ?k = "nat (swipeIndex r (length available))"
    from swipeIndex_range [OF assms(3,4) pos]
    have rng: "0 \<le> swipeIndex r (length available)" "?k < length available"
      by simp_all
    then have res: "handleSwipe palette r prev = Some (available ! ?k)"
      by (simp add: handleSwipe_def Let_def available_def)
    from handleSwipe_Some [OF res] rng res show ?thesis
      by (intro exI [of _ ?k]) simp
  qed
  have c: "swipeIndex r (length available) = int k
              \<longleftrightarrow> real k / real (length available) \<le> r
                  \<and> r < real (k + 1) / real (length available)"
    if "k < length available" for k
  proof -
    from that have "0 < length available"
      by linarith
    then show ?thesis
      by (rule swipeIndex_interval)
  qed
  have d: "length available = length palette - 1 \<and> available \<noteq> []" if d: "distinct palette"
  proof -
    have "{c. c = prev} \<inter> set palette = {prev}"
      using assms(2) by auto
    then have "length (filter (\<lambda>c. c = prev) palette) = 1"
      using d by (simp add: distinct_length_filter)
    moreover have "length palette
        = length (filter (\<lambda>c. c = prev) palette) + length (filter (\<lambda>c. \<not> c = prev) palette)"
      by (rule sum_length_filter_compl [symmetric])
    ultimately have "length available = length palette - 1"
      by (simp add: available_def)
    with assms(1) show ?thesis
      by auto
  qed
  from a b c d show ?thesis
    by blast
qed

theorem handleSwipe_excludes_previous_witness:
  "2 \<le> length PALETTE \<and> ''#ffa6c9'' \<in> set PALETTE \<and> distinct PALETTE
   \<and> handleSwipe PALETTE (1/2) ''#ffa6c9'' = Some ''#ffcc00''
   \<and> handleSwipe PALETTE (1/2) ''#ffa6c9'' \<noteq> Some ''#ffa6c9''"
  using handleSwipe_excludes_previous [of PALETTE "''#ffa6c9''" "1/2"]
  by (simp add: PALETTE_def handleSwipe_def swipeIndex_def)


section \<open>Opening rotation in the vertex shader\<close>

lemma smoothstep_unit:
  assumes "0 \<le> b" "b \<le> 1"
  shows "smoothstep 0 1 b = b * b * (3 - 2 * b)"
  using assms by (simp add: smoothstep_def clamp_def)

lemma smoothstep_range: "0 \<le> smoothstep 0 1 b \<and> smoothstep 0 1 b \<le> 1"
proof -
  define t where "t = clamp b 0 1"
  have t: "0 \<le> t" "t \<le> 1"
    by (simp_all add: t_def clamp_def)
  have "0 \<le> t * t * (3 - 2 * t)"
    using t by simp
  moreover have "1 - t * t * (3 - 2 * t) = (1 - t) * (1 - t) * (1 + 2 * t)"
    by (simp add: algebra_simps)
  moreover have "0 \<le> (1 - t) * (1 - t) * (1 + 2 * t)"
    using t by simp
  moreover have "smoothstep 0 1 b = t * t * (3 - 2 * t)"
    by (simp add: smoothstep_def t_def Let_def)
  ultimately show ?thesis
    by linarith
qed

lemma calculatePetalShape_angle_ge:
  "0.2 \<le> snd (calculatePetalShape u v i n)"
  by (simp add: calculatePetalShape_angle)

lemma rotation_norm:
  fixes y z c k :: real
  shows "(y * c - z * k)\<^sup>2 + (y * k + z * c)\<^sup>2 = (y\<^sup>2 + z\<^sup>2) * (k\<^sup>2 + c\<^sup>2)"
  by (simp add: power2_eq_square algebra_simps)

lemma rotateLateral_norm:
  "(vec_y (rotateLateral a p))\<^sup>2 + (vec_z (rotateLateral a p))\<^sup>2 = (vec_y p)\<^sup>2 + (vec_z p)\<^sup>2"
  using rotation_norm [of "vec_y p" "cos a" "vec_z p" "sin a"]
  by (simp add: rotateLateral_def)

text \<open>
  Claim C7: for a particle that the shader does not take for an aura particle and a
  bloom amount \<open>b\<close> in [0,1], the transform stage turns the formed position about the
  lateral axis by the angle \<open>lerp(maxOpenAngle * 0.15, maxOpenAngle, smoothstep(b))\<close>,
  \<open>smoothstep(b)\<close> being \<open>b * b * (3 - 2 * b)\<close>, before it turns it about the vertical
  axis by the petal's angle, lifts it by the layer offset less 1.5 and adds the
  vibration. At \<open>b = 0\<close> the angle is 15% of the maximal opening angle, and for a
  maximal opening angle that \<^verbatim>\<open>calculatePetalShape\<close> computes, as every petal
  particle has, it is at least that and never zero.
\<close>

theorem flowerPos_opening_rotation:
  fixes position aInfo :: Vector3 and uTime b :: real
  assumes "\<not> isAura aInfo" "0 \<le> b" "b \<le> 1"
  defines "theta \<equiv> lerp (vec_y aInfo * 0.15) (vec_y aInfo) (b * b * (3 - 2 * b))"
  defines "q \<equiv> rotateVertical (vec_x aInfo) (rotateLateral theta position)"
  shows "flowerPos uTime b position aInfo
           = \<lparr>vec_x = vec_x q + sin (uTime * 5 + (vec_y q + vec_z aInfo - 1.5)) * 0.005,
              vec_y = vec_y q + vec_z aInfo - 1.5,
              vec_z = vec_z q\<rparr>
       \<and> currentAngle aInfo b = theta
       \<and> (b = 0 \<longrightarrow> theta = 0.15 * vec_y aInfo)
       \<and> (\<forall>u v i. vec_y aInfo = snd (calculatePetalShape u v i (length layersDef)) \<longrightarrow>
             0.15 * vec_y aInfo \<le> theta \<and> 0 < theta)"
proof -
  have sm: "smoothstep 0 1 b = b * b * (3 - 2 * b)"
    using assms(2,3) by (rule smoothstep_unit)
  have f: "currentAngle aInfo b = theta"
    unfolding theta_def sm [symmetric]
    by (simp add: currentAngle_def mix_def lerp_def Let_def field_simps)
  have pos: "flowerPos uTime b position aInfo
           = \<lparr>vec_x = vec_x q + sin (uTime * 5 + (vec_y q + vec_z aInfo - 1.5)) * 0.005,
              vec_y = vec_y q + vec_z aInfo - 1.5,
              vec_z = vec_z q\<rparr>"
    using assms(1)
    by (simp add: flowerPos_def Let_def f q_def rotateVertical_def rotateLateral_def)
  have z: "theta = 0.15 * vec_y aInfo" if "b = 0"
    using that by (simp add: theta_def lerp_def)
  have p: "0.15 * vec_y aInfo \<le> theta \<and> 0 < theta"
    if "vec_y aInfo = snd (calculatePetalShape u v i (length layersDef))" for u v i
  proof -
    have y: "0.2 \<le> vec_y aInfo"
      using that calculatePetalShape_angle_ge by simp
    then have "vec_y aInfo * 0.15 \<le> vec_y aInfo"
      by simp
    from lerp_up [OF _ _ this, of "smoothstep 0 1 b"] smoothstep_range [of b]
    have "vec_y aInfo * 0.15 \<le> theta"
      by (simp add: theta_def sm)
    with y show ?thesis
      by simp
  qed
  from pos f z p show ?thesis
    by blast
qed

theorem flowerPos_opening_rotation_witness:
  "\<not> isAura \<lparr>vec_x = 0, vec_y = snd (calculatePetalShape 0 0 0 (length layersDef)), vec_z = 0\<rparr>
   \<and> currentAngle
        \<lparr>vec_x = 0, vec_y = snd (calculatePetalShape 0 0 0 (length layersDef)), vec_z = 0\<rparr> (1/2)
       = 23 / 200
   \<and> flowerPos 0 (1/2) \<lparr>vec_x = 0, vec_y = 1, vec_z = 0\<rparr>
        \<lparr>vec_x = 0, vec_y = snd (calculatePetalShape 0 0 0 (length layersDef)), vec_z = 0\<rparr>
       = \<lparr>vec_x = sin (cos (23 / 200) - 3 / 2) * 0.005,
          vec_y = cos (23 / 200) - 3 / 2,
          vec_z = sin (23 / 200)\<rparr>"
  using flowerPos_opening_rotation [of
      "\<lparr>vec_x = 0, vec_y = snd (calculatePetalShape 0 0 0 (length layersDef)), vec_z = 0\<rparr>"
      "1/2" 0 "\<lparr>vec_x = 0, vec_y = 1, vec_z = 0\<rparr>"]
  by (simp add: isAura_def calculatePetalShape_angle lerp_def rotateVertical_def
      rotateLateral_def)

section \<open>Inference tick\<close>

text \<open>
  Claim C8, as stated: on every tick the detector is invoked if and only if the
  timestamp of the video frame differs from the recorded one. Every tick first tests
  anew that the landmarker is loaded and that the video element is mounted with ready
  state at least 2. From the cells at mount, the first tick (made by the
  \<^verbatim>\<open>loadeddata\<close> listener, with ready state 4) invokes the detector and records
  time 0; on the next tick the video element reports ready state 1 and time 0.04: the
  timestamp differs from the recorded one and the detector is not invoked.
\<close>

theorem predict_guard_counterexample:
  "detectCalls (predict
        \<lparr>landmarkerLoaded = True, videoMounted = True, readyState = 4,
          currentTime = 0, detection = []\<rparr> initialTracker) = 1
   \<and> lastVideoTime (predict
        \<lparr>landmarkerLoaded = True, videoMounted = True, readyState = 4,
          currentTime = 0, detection = []\<rparr> initialTracker) = 0
   \<and> currentTime \<lparr>landmarkerLoaded = True, videoMounted = True, readyState = 1,
          currentTime = 0.04, detection = []\<rparr>
       \<noteq> lastVideoTime (predict
        \<lparr>landmarkerLoaded = True, videoMounted = True, readyState = 4,
          currentTime = 0, detection = []\<rparr> initialTracker)
   \<and> detectCalls (predict
        \<lparr>landmarkerLoaded = True, videoMounted = True, readyState = 1,
          currentTime = 0.04, detection = []\<rparr>
        (predict
          \<lparr>landmarkerLoaded = True, videoMounted = True, readyState = 4,
            currentTime = 0, detection = []\<rparr> initialTracker)) = 1"
  by (simp add: predict_def initialTracker_def)

text \<open>
  Claim C8, amended: on every tick at which the landmarker is loaded and the video
  element is mounted with ready state at least 2, the detector is invoked if and only
  if the timestamp of the video frame differs from the recorded one, and after the
  tick the recorded timestamp is that of the frame, so that a following such tick on
  the same frame does not invoke it again; it is invoked at most once per tick; and on
  a tick without those conditions or with an unchanged timestamp it is not invoked and
  the hand-present and hand-open signals, the detected flag and the recorded
  timestamp keep their values.
\<close>

theorem predict_skips_unchanged_frame:
  fixes inp inp2 :: tick_input and s :: tracker_state
  defines "ready \<equiv> landmarkerLoaded inp \<and> videoMounted inp \<and> readyState inp \<ge> 2"
  defines "s' \<equiv> predict inp s"
  shows "(ready \<longrightarrow> (detectCalls s' = detectCalls s + 1 \<longleftrightarrow> currentTime inp \<noteq> lastVideoTime s))
       \<and> (ready \<longrightarrow> lastVideoTime s' = currentTime inp)
       \<and> (ready \<and> currentTime inp2 = currentTime inp \<longrightarrow>
            detectCalls (predict inp2 s') = detectCalls s'
            \<and> appIsHandPresent (predict inp2 s') = appIsHandPresent s'
            \<and> appIsBlooming (predict inp2 s') = appIsBlooming s')
       \<and> (detectCalls s' = detectCalls s + 1 \<or> detectCalls s' = detectCalls s)
       \<and> (\<not> ready \<or> currentTime inp = lastVideoTime s \<longrightarrow>
            detectCalls s' = detectCalls s
            \<and> appIsHandPresent s' = appIsHandPresent s \<and> appIsBlooming s' = appIsBlooming s
            \<and> handDetected s' = handDetected s \<and> lastVideoTime s' = lastVideoTime s)"
proof -
  have one: "(ready \<longrightarrow> (detectCalls s' = detectCalls s + 1 \<longleftrightarrow> currentTime inp \<noteq> lastVideoTime s))
       \<and> (detectCalls s' = detectCalls s + 1 \<or> detectCalls s' = detectCalls s)
       \<and> (\<not> ready \<or> currentTime inp = lastVideoTime s \<longrightarrow>
            detectCalls s' = detectCalls s
            \<and> appIsHandPresent s' = appIsHandPresent s \<and> appIsBlooming s' = appIsBlooming s
            \<and> handDetected s' = handDetected s \<and> lastVideoTime s' = lastVideoTime s)"
    unfolding ready_def s'_def
    by (auto simp: predict_def Let_def split: option.splits)
  have rec: "lastVideoTime s' = currentTime inp" if ready
    using that unfolding ready_def s'_def
    by (auto simp: predict_def Let_def split: option.splits)
  have same: "detectCalls (predict inp2 t) = detectCalls t
            \<and> appIsHandPresent (predict inp2 t) = appIsHandPresent t
            \<and> appIsBlooming (predict inp2 t) = appIsBlooming t"
    if "currentTime inp2 = lastVideoTime t" for t
    using that by (simp add: predict_def)
  from one rec same [of s'] show ?thesis
    by auto
qed

theorem predict_skips_unchanged_frame_witness:
  "detectCalls (predict
        \<lparr>landmarkerLoaded = True, videoMounted = True, readyState = 4,
          currentTime = 1, detection = [handOnAxis 2 2 2 2]\<rparr>
        \<lparr>lastVideoTime = 1, handDetected = False, appIsHandPresent = False,
          appIsBlooming = False, detectCalls = 7, scheduled = True\<rparr>) = 7
   \<and> appIsBlooming (predict
        \<lparr>landmarkerLoaded = True, videoMounted = True, readyState = 4,
          currentTime = 1, detection = [handOnAxis 2 2 2 2]\<rparr>
        \<lparr>lastVideoTime = 1, handDetected = False, appIsHandPresent = False,
          appIsBlooming = False, detectCalls = 7, scheduled = True\<rparr>) = False
   \<and> detectCalls (predict
        \<lparr>landmarkerLoaded = True, videoMounted = True, readyState = 4,
          currentTime = 2, detection = [handOnAxis 2 2 2 2]\<rparr>
        \<lparr>lastVideoTime = 1, handDetected = False, appIsHandPresent = False,
          appIsBlooming = False, detectCalls = 7, scheduled = True\<rparr>) = 8
   \<and> lastVideoTime (predict
        \<lparr>landmarkerLoaded = True, videoMounted = True, readyState = 4,
          currentTime = 2, detection = [handOnAxis 2 2 2 2]\<rparr>
        \<lparr>lastVideoTime = 1, handDetected = False, appIsHandPresent = False,
          appIsBlooming = False, detectCalls = 7, scheduled = True\<rparr>) = 2
   \<and> detectCalls (predict
        \<lparr>landmarkerLoaded = True, videoMounted = True, readyState = 4,
          currentTime = 2, detection = []\<rparr>
        (predict
          \<lparr>landmarkerLoaded = True, videoMounted = True, readyState = 4,
            currentTime = 2, detection = [handOnAxis 2 2 2 2]\<rparr>
          \<lparr>lastVideoTime = 1, handDetected = False, appIsHandPresent = False,
            appIsBlooming = False, detectCalls = 7, scheduled = True\<rparr>)) = 8"
  using predict_skips_unchanged_frame [of
        "\<lparr>landmarkerLoaded = True, videoMounted = True, readyState = 4,
          currentTime = 1, detection = [handOnAxis 2 2 2 2]\<rparr>"
        "\<lparr>lastVideoTime = 1, handDetected = False, appIsHandPresent = False,
          appIsBlooming = False, detectCalls = 7, scheduled = True\<rparr>"]
    predict_skips_unchanged_frame [of
        "\<lparr>landmarkerLoaded = True, videoMounted = True, readyState = 4,
          currentTime = 2, detection = [handOnAxis 2 2 2 2]\<rparr>"
        "\<lparr>lastVideoTime = 1, handDetected = False, appIsHandPresent = False,
          appIsBlooming = False, detectCalls = 7, scheduled = True\<rparr>"
        "\<lparr>landmarkerLoaded = True, videoMounted = True, readyState = 4,
          currentTime = 2, detection = []\<rparr>"]
  by simp

section \<open>Aura sentinel\<close>

lemma item_append_left:
  assumes "3 * k + 2 < length ys"
  shows "item (ys @ zs) k = item ys k"
  using assms by (simp add: item_def nth_append)

lemma item_append_right:
  assumes "length ys = 3 * n" "n \<le> k"
  shows "item (ys @ zs) k = item zs (k - n)"
proof -
  have "\<not> 3 * k < length ys" "\<not> 3 * k + 1 < length ys" "\<not> 3 * k + 2 < length ys"
    using assms by simp_all
  moreover have "3 * k - length ys = 3 * (k - n)" "3 * k + 1 - length ys = 3 * (k - n) + 1"
    "3 * k + 2 - length ys = 3 * (k - n) + 2"
    using assms by simp_all
  ultimately show ?thesis
    by (simp add: item_def nth_append)
qed

lemma items_Nil: "items P 0 []"
  by (simp add: items_def)

lemma items_single: "P \<lparr>vec_x = a, vec_y = b, vec_z = c\<rparr> \<Longrightarrow> items P 1 [a, b, c]"
  by (simp add: items_def item_def)

lemma items_mono: "items P n ys \<Longrightarrow> (\<And>y. P y \<Longrightarrow> Q y) \<Longrightarrow> items Q n ys"
  by (simp add: items_def)

lemma items_append:
  assumes "items P n ys" "items P m zs"
  shows "items P (n + m) (ys @ zs)"
proof -
  have len: "length ys = 3 * n" "length zs = 3 * m"
    using assms by (simp_all add: items_def)
  have "P (item (ys @ zs) k)" if "k < n + m" for k
  proof (cases "k < n")
    case True
    then have "3 * k + 2 < length ys"
      using len by simp
    then have "item (ys @ zs) k = item ys k"
      by (rule item_append_left)
    with True assms(1) show ?thesis
      by (simp add: items_def)
  next
    case False
    then have "item (ys @ zs) k = item zs (k - n)"
      using len(1) by (intro item_append_right) simp_all
    moreover have "k - n < m"
      using False that by simp
    ultimately show ?thesis
      using assms(2) by (simp add: items_def)
  qed
  with len show ?thesis
    by (simp add: items_def)
qed

lemma fold_items:
  assumes "\<And>x s. \<exists>ys. tempInfo (g x s) = tempInfo s @ ys \<and> items P m ys"
  shows "\<exists>ys. tempInfo (fold g xs s) = tempInfo s @ ys \<and> items P (m * length xs) ys"
proof (induction xs arbitrary: s)
  case Nil
  then show ?case
    by (simp add: items_Nil)
next
  case (Cons x xs)
  from assms [of x s] obtain ys
    where ys: "tempInfo (g x s) = tempInfo s @ ys" "items P m ys"
    by auto
  from Cons.IH [of "g x s"] obtain zs
    where zs: "tempInfo (fold g xs (g x s)) = tempInfo (g x s) @ zs"
      "items P (m * length xs) zs"
    by auto
  have "tempInfo (fold g (x # xs) s) = tempInfo s @ (ys @ zs)"
    using ys zs by simp
  moreover have "items P (m * length (x # xs)) (ys @ zs)"
    using items_append [OF ys(2) zs(2)] by simp
  ultimately show ?case
    by blast
qed

text \<open>
  A loop whose rounds push blocks of different sizes and kinds: item \<open>k\<close> of what the
  loop pushes is of the kind of the round in whose run \<open>k\<close> falls.
\<close>

lemma blockOf_less: "k < sum_list ms \<Longrightarrow> blockOf ms k < length ms"
  by (induction ms arbitrary: k) auto

lemma fold_blocks:
  assumes "\<And>x s. x \<in> set xs \<Longrightarrow>
             \<exists>ys. tempInfo (g x s) = tempInfo s @ ys \<and> items (P x) (m x) ys"
  shows "\<exists>zs. tempInfo (fold g xs s) = tempInfo s @ zs
           \<and> length zs = 3 * sum_list (map m xs)
           \<and> (\<forall>k<sum_list (map m xs). P (xs ! blockOf (map m xs) k) (item zs k))"
  using assms
proof (induction xs arbitrary: s)
  case Nil
  then show ?case
    by simp
next
  case (Cons x xs)
  from Cons.prems [of x s] obtain ys
    where ys: "tempInfo (g x s) = tempInfo s @ ys" "items (P x) (m x) ys"
    by auto
  have leny: "length ys = 3 * m x"
    using ys(2) by (simp add: items_def)
  from Cons.IH [of "g x s"] Cons.prems obtain zs
    where zs: "tempInfo (fold g xs (g x s)) = tempInfo (g x s) @ zs"
      "length zs = 3 * sum_list (map m xs)"
      "\<forall>k<sum_list (map m xs). P (xs ! blockOf (map m xs) k) (item zs k)"
    by auto
  have a: "tempInfo (fold g (x # xs) s) = tempInfo s @ (ys @ zs)"
    using ys zs by simp
  have b: "length (ys @ zs) = 3 * sum_list (map m (x # xs))"
    using leny zs(2) by simp
  have c: "P ((x # xs) ! blockOf (map m (x # xs)) k) (item (ys @ zs) k)"
    if "k < sum_list (map m (x # xs))" for k
  proof (cases "k < m x")
    case True
    then have "3 * k + 2 < length ys"
      using leny by simp
    then have "item (ys @ zs) k = item ys k"
      by (rule item_append_left)
    with True ys(2) show ?thesis
      by (simp add: items_def)
  next
    case False
    then have "item (ys @ zs) k = item zs (k - m x)"
      using leny by (intro item_append_right) simp_all
    moreover have "k - m x < sum_list (map m xs)"
      using False that by simp
    ultimately show ?thesis
      using zs(3) False by simp
  qed
  from a b c show ?case
    by blast
qed

lemma emitPetalPoint_info:
  "\<exists>ys. tempInfo (emitPetalPoint rand tn li pr ly vb ppv i st) = tempInfo st @ ys
     \<and> items (\<lambda>a. (\<exists>u v. vec_y a = snd (calculatePetalShape u v li (length layersDef)))
                  \<and> vec_z a = ly) 1 ys"
proof -
  define u where "u = max 0 (min 1 (real i / real_of_int ppv + (rand (rng st) - 0.5) * 0.02))"
  define v where "v = max 0 (min 1 (vb + (rand (rng st + 1) - 0.5) * 0.05))"
  have "tempInfo (emitPetalPoint rand tn li pr ly vb ppv i st)
      = tempInfo st @ [pr, snd (calculatePetalShape u v li (length layersDef)), ly]"
    by (simp add: emitPetalPoint_def Let_def case_prod_beta u_def v_def)
  moreover have "items (\<lambda>a. (\<exists>u v. vec_y a = snd (calculatePetalShape u v li (length layersDef)))
                  \<and> vec_z a = ly) 1
      [pr, snd (calculatePetalShape u v li (length layersDef)), ly]"
    by (rule items_single) auto
  ultimately show ?thesis
    by blast
qed

lemma veinLoop_info:
  "\<exists>ys. tempInfo (veinLoop rand tn li pr ly ppv vIdx st) = tempInfo st @ ys
     \<and> items (\<lambda>a. (\<exists>u v. vec_y a = snd (calculatePetalShape u v li (length layersDef)))
                  \<and> vec_z a = ly) (nat ppv) ys"
  unfolding veinLoop_def Let_def
  using fold_items [where m = 1 and xs = "[0..<nat ppv]", OF emitPetalPoint_info]
  by simp

lemma petalLoop_info:
  "\<exists>ys. tempInfo (petalLoop rand tn config layer li p st) = tempInfo st @ ys
     \<and> items (\<lambda>a. (\<exists>u v. vec_y a = snd (calculatePetalShape u v li (length layersDef)))
                  \<and> vec_z a = - (real li * 0.25))
          (nat (pointsPerVein config) * veins) ys"
  unfolding petalLoop_def Let_def
  using fold_items [where xs = "[0..<veins]", OF veinLoop_info]
  by simp

lemma layerLoop_info:
  "\<exists>ys. tempInfo (layerLoop rand tn config (layer, li) st) = tempInfo st @ ys
     \<and> items (\<lambda>a. (\<exists>u v. vec_y a = snd (calculatePetalShape u v li (length layersDef)))
                  \<and> vec_z a = - (real li * 0.25))
          (count layer * veins * nat (pointsPerVein config)) ys"
proof -
  from fold_items [where xs = "[0..<count layer]", OF petalLoop_info]
  have "\<exists>ys. tempInfo (layerLoop rand tn config (layer, li) st) = tempInfo st @ ys
     \<and> items (\<lambda>a. (\<exists>u v. vec_y a = snd (calculatePetalShape u v li (length layersDef)))
                  \<and> vec_z a = - (real li * 0.25))
          (nat (pointsPerVein config) * veins * length [0..<count layer]) ys"
    unfolding layerLoop_def prod.case .
  then show ?thesis
    by (simp add: mult.commute mult.left_commute)
qed

lemma layer_table_sizes:
  "map (\<lambda>(layer, li :: nat). count layer * veins * nat (pointsPerVein config))
     (zip layersDef [0..<length layersDef]) = layerSizes config"
  by (simp add: layerSizes_def layersDef_def)

lemma layerSizes_sum: "sum_list (layerSizes config) = petalParticles config"
  by (simp add: layerSizes_def petalParticles_def)

lemma layerOfParticle_less:
  "k < petalParticles config \<Longrightarrow> layerOfParticle config k < length layersDef"
  using blockOf_less [of k "layerSizes config"]
  by (simp add: layerOfParticle_def layerSizes_sum) (simp add: layerSizes_def)

lemma petalPhase_info:
  "length (tempInfo (petalPhase rand tn config)) = 3 * petalParticles config
   \<and> (\<forall>k<petalParticles config.
        (\<exists>u v. vec_y (item (tempInfo (petalPhase rand tn config)) k)
                 = snd (calculatePetalShape u v (layerOfParticle config k) (length layersDef)))
        \<and> vec_z (item (tempInfo (petalPhase rand tn config)) k)
            = - (real (layerOfParticle config k) * 0.25))"
proof -
  let ?P = "\<lambda>(layer :: LayerDef, li :: nat) a.
      (\<exists>u v. vec_y a = snd (calculatePetalShape u v li (length layersDef)))
      \<and> vec_z a = - (real li * 0.25)"
  let ?m = "\<lambda>(layer, li :: nat). count layer * veins * nat (pointsPerVein config)"
  let ?xs = "zip layersDef [0..<length layersDef]"
  have step: "\<exists>ys. tempInfo (layerLoop rand tn config x s) = tempInfo s @ ys
                \<and> items (?P x) (?m x) ys" for x s
    using layerLoop_info [of rand tn config "fst x" "snd x" s]
    by (simp add: case_prod_beta)
  have "\<exists>zs. tempInfo (fold (layerLoop rand tn config) ?xs s) = tempInfo s @ zs
           \<and> length zs = 3 * sum_list (map ?m ?xs)
           \<and> (\<forall>k<sum_list (map ?m ?xs). ?P (?xs ! blockOf (map ?m ?xs) k) (item zs k))" for s
    using step by (rule fold_blocks)
  from this [of "\<lparr>tempPos = [], tempCol = [], tempInfo = [], tempRand = [], rng = 0\<rparr>"]
  have zs: "length (tempInfo (petalPhase rand tn config)) = 3 * petalParticles config"
    "\<forall>k<petalParticles config.
        ?P (?xs ! layerOfParticle config k) (item (tempInfo (petalPhase rand tn config)) k)"
    unfolding petalPhase_def layer_table_sizes layerSizes_sum layerOfParticle_def [symmetric]
    by auto
  have "?xs ! layerOfParticle config k = (layersDef ! layerOfParticle config k, layerOfParticle config k)"
    if "k < petalParticles config" for k
    using layerOfParticle_less [OF that] by simp
  with zs show ?thesis
    by (simp add: case_prod_beta)
qed

lemma emitAura_info:
  "\<exists>ys. tempInfo (emitAura rand tn i st) = tempInfo st @ ys \<and> items (\<lambda>a. vec_y a = - 1) 1 ys"
proof -
  have "tempInfo (emitAura rand tn i st) = tempInfo st @ [0, - 1, 0]"
    by (simp add: emitAura_def Let_def)
  moreover have "items (\<lambda>a. vec_y a = - 1) 1 [0, - 1, 0]"
    by (rule items_single) simp
  ultimately show ?thesis
    by blast
qed

lemma generate_infos:
  "\<exists>as. infos (generate tones rand config activeColor)
           = tempInfo (petalPhase rand (tones activeColor) config) @ as
     \<and> items (\<lambda>a. vec_y a = - 1) auraCount as"
proof -
  from fold_items [where g = "emitAura rand (tones activeColor)"
      and P = "\<lambda>a. vec_y a = - 1" and m = 1 and xs = "[0..<auraCount]"
      and s = "petalPhase rand (tones activeColor) config", OF emitAura_info]
  obtain as where as: "tempInfo (fold (emitAura rand (tones activeColor)) [0..<auraCount]
        (petalPhase rand (tones activeColor) config))
      = tempInfo (petalPhase rand (tones activeColor) config) @ as"
    "items (\<lambda>a. vec_y a = - 1) (1 * length [0..<auraCount]) as"
    by blast
  have "infos (generate tones rand config activeColor)
      = tempInfo (petalPhase rand (tones activeColor) config) @ as"
    using as(1) by (simp add: generate_def Let_def)
  moreover have "items (\<lambda>a. vec_y a = - 1) auraCount as"
    using as(2) by simp
  ultimately show ?thesis
    by blast
qed

text \<open>
  Claim C10: in the generated info array, every particle \<open>k\<close> before the aura block
  has as maximal opening angle the value that \<^verbatim>\<open>calculatePetalShape\<close> returns for the
  layer during whose round it was pushed, \<open>0.2 + layerRatio powr 1.5 * 1.5\<close> with
  \<open>layerRatio\<close> that layer's index over six (the layer whose vertical offset the
  particle carries), which is at least 0.2 and so at least 0.7 above the shader's
  threshold -0.5; every particle of the aura block has exactly -1, which is 0.5 below
  the threshold. Hence the shader's test holds exactly for the particles of the aura
  block.
\<close>

theorem aura_test_exact:
  assumes "k < particleCount (generate tones rand config activeColor)"
  defines "aInfo \<equiv> item (infos (generate tones rand config activeColor)) k"
  defines "i \<equiv> layerOfParticle config k"
  shows "(if k < petalParticles config
          then i < length layersDef
               \<and> (\<exists>u v. vec_y aInfo = snd (calculatePetalShape u v i (length layersDef)))
               \<and> vec_y aInfo = 0.2 + (real i / real (length layersDef)) powr 1.5 * 1.5
               \<and> vec_z aInfo = - (real i * 0.25)
               \<and> 0.2 \<le> vec_y aInfo \<and> 0.7 \<le> vec_y aInfo - (- 0.5)
          else vec_y aInfo = - 1.0 \<and> (- 0.5) - vec_y aInfo = 0.5)
       \<and> (isAura aInfo \<longleftrightarrow> petalParticles config \<le> k)"
proof -
  let ?ps = "tempInfo (petalPhase rand (tones activeColor) config)"
  from generate_infos [of tones rand config activeColor] obtain as
    where split: "infos (generate tones rand config activeColor) = ?ps @ as"
      and as: "items (\<lambda>a. vec_y a = - 1) auraCount as"
    by blast
  have len: "length ?ps = 3 * petalParticles config"
    using petalPhase_info [of rand "tones activeColor" config] by blast
  show ?thesis
  proof (cases "k < petalParticles config")
    case True
    then have "3 * k + 2 < length ?ps"
      using len by simp
    then have eq: "aInfo = item ?ps k"
      unfolding aInfo_def split by (rule item_append_left)
    from petalPhase_info [of rand "tones activeColor" config] True obtain u v
      where y: "vec_y aInfo = snd (calculatePetalShape u v i (length layersDef))"
        and z: "vec_z aInfo = - (real i * 0.25)"
      unfolding eq i_def by blast
    have i: "i < length layersDef"
      unfolding i_def using True by (rule layerOfParticle_less)
    from y have val: "vec_y aInfo = 0.2 + (real i / real (length layersDef)) powr 1.5 * 1.5"
      by (simp add: calculatePetalShape_angle)
    then have ge: "0.2 \<le> vec_y aInfo"
      by simp
    then have na: "\<not> isAura aInfo"
      by (simp add: isAura_def)
    have "\<exists>u v. vec_y aInfo = snd (calculatePetalShape u v i (length layersDef))"
      using y by blast
    with i val z ge na True show ?thesis
      by simp
  next
    case False
    then have "aInfo = item as (k - petalParticles config)"
      unfolding aInfo_def split using len by (intro item_append_right) simp_all
    moreover have "k - petalParticles config < auraCount"
      using False assms(1) by (simp add: particleCount_generate)
    ultimately have "vec_y aInfo = - 1"
      using as by (simp add: items_def)
    with False show ?thesis
      by (simp add: isAura_def)
  qed
qed

theorem aura_test_exact_witness:
  "79694 < particleCount (generate (\<lambda>c. sampleTones) (\<lambda>n. 0) appConfig ''#ffa6c9'')
   \<and> 79695 < particleCount (generate (\<lambda>c. sampleTones) (\<lambda>n. 0) appConfig ''#ffa6c9'')
   \<and> layerOfParticle appConfig 4025 = 1 \<and> layerOfParticle appConfig 79694 = 5
   \<and> vec_y (item (infos (generate (\<lambda>c. sampleTones) (\<lambda>n. 0) appConfig ''#ffa6c9'')) 4025)
       = 0.2 + (1 / 6) powr 1.5 * 1.5
   \<and> vec_y (item (infos (generate (\<lambda>c. sampleTones) (\<lambda>n. 0) appConfig ''#ffa6c9'')) 79694)
       = 0.2 + (5 / 6) powr 1.5 * 1.5
   \<and> vec_z (item (infos (generate (\<lambda>c. sampleTones) (\<lambda>n. 0) appConfig ''#ffa6c9'')) 79694)
       = - 1.25
   \<and> \<not> isAura (item (infos (generate (\<lambda>c. sampleTones) (\<lambda>n. 0) appConfig ''#ffa6c9'')) 79694)
   \<and> isAura (item (infos (generate (\<lambda>c. sampleTones) (\<lambda>n. 0) appConfig ''#ffa6c9'')) 79695)"
proof -
  have n: "particleCount (generate (\<lambda>c. sampleTones) (\<lambda>n. 0) appConfig ''#ffa6c9'') = 87695"
    by (simp add: particleCount_generate petalParticles_eq pointsPerVein_div appConfig_def
        auraCount_def)
  have p: "petalParticles appConfig = 79695"
    by (simp add: petalParticles_eq pointsPerVein_div appConfig_def)
  have sizes: "layerSizes appConfig = [4025, 6440, 9660, 14490, 19320, 25760]"
    by (simp add: layerSizes_def layersDef_def veins_def pointsPerVein_div appConfig_def)
  have l: "layerOfParticle appConfig 4025 = 1" "layerOfParticle appConfig 79694 = 5"
    by (simp_all add: layerOfParticle_def sizes)
  have six: "length layersDef = 6"
    by (simp add: layersDef_def)
  show ?thesis
    using aura_test_exact [of 4025 "\<lambda>c. sampleTones" "\<lambda>n. 0" appConfig "''#ffa6c9''"]
      aura_test_exact [of 79694 "\<lambda>c. sampleTones" "\<lambda>n. 0" appConfig "''#ffa6c9''"]
      aura_test_exact [of 79695 "\<lambda>c. sampleTones" "\<lambda>n. 0" appConfig "''#ffa6c9''"]
    by (simp add: n p l six)
qed


end
